theory Spec2Isabelle
  imports Main "HOL-Library.AList"
begin

section \<open>Values, columns and model classes\<close>

text \<open>
  A mapped instance is its attribute dictionary: attribute name to value. The values are
  the Python values the columns of this repository hold; a datetime is a point on a
  clock, counted in ticks.
\<close>

datatype val = NoneV | IntV int | StrV string | BoolV bool | DateTimeV nat

datatype pytype = PyInt | PyStr | PyBool | PyDateTime | PyEnum string | Optional pytype

text \<open>
  \<open>column.default\<close> is either absent, a scalar default carrying \<open>arg\<close>, or a default
  generator without an \<open>arg\<close> attribute (a sequence).
\<close>

datatype column_default = ColumnDefault val | Sequence string

text \<open>
  What \<open>create_pydantic_model\<close>, the INSERT and the UPDATE read from a column.
  \<open>python_type\<close> is \<open>None\<close> where \<open>column.type.python_type\<close> raises
  \<open>NotImplementedError\<close>.
\<close>

record column =
  name :: string
  python_type :: "pytype option"
  nullable :: bool
  default_arg :: "column_default option"
  onupdate :: "val option"

type_synonym item = "string \<rightharpoonup> val"

text \<open>
  A model class: \<open>__name__\<close>, \<open>__table__.columns\<close>, the names of the other attributes
  the class defines (methods, relationships), for which \<open>hasattr\<close> holds too, and the
  constraints of its table that the database enforces beyond the primary key and
  NOT NULL (foreign keys, unique indexes), as the message of the violation if any.
\<close>

record model_class =
  cls_name :: string
  columns :: "column list"
  other_attributes :: "string list"
  table_constraints :: "item list \<Rightarrow> string option"

subsection \<open>models/base.py\<close>

text \<open>
  The four columns of \<open>BaseModel\<close>. The three calls of \<open>datetime.now()\<close> are evaluated
  once, when the class body runs: they are three fixed instants \<open>t_created\<close>,
  \<open>t_updated\<close> and \<open>t_onupdate\<close>.
\<close>

definition base_columns :: "nat \<Rightarrow> nat \<Rightarrow> nat \<Rightarrow> column list" where
  "base_columns t_created t_updated t_onupdate =
     [\<lparr>name = ''id'', python_type = Some PyInt, nullable = False,
       default_arg = None, onupdate = None\<rparr>,
      \<lparr>name = ''created_at'', python_type = Some PyDateTime, nullable = False,
       default_arg = Some (ColumnDefault (DateTimeV t_created)), onupdate = None\<rparr>,
      \<lparr>name = ''updated_at'', python_type = Some PyDateTime, nullable = False,
       default_arg = Some (ColumnDefault (DateTimeV t_updated)),
       onupdate = Some (DateTimeV t_onupdate)\<rparr>,
      \<lparr>name = ''is_active'', python_type = Some PyBool, nullable = False,
       default_arg = Some (ColumnDefault (BoolV True)), onupdate = None\<rparr>]"

definition getattr :: "item \<Rightarrow> string \<Rightarrow> val" where
  "getattr self key = (case self key of Some v \<Rightarrow> v | None \<Rightarrow> NoneV)"

definition to_dict :: "model_class \<Rightarrow> item \<Rightarrow> (string \<times> val) list" where
  "to_dict cls self = map (\<lambda>column. (name column, getattr self (name column))) (columns cls)"

definition soft_delete :: "item \<Rightarrow> item" where
  "soft_delete self = self(''is_active'' \<mapsto> BoolV False)"

subsection \<open>models/offer.py\<close>

definition offer_columns :: "column list" where
  "offer_columns =
     [\<lparr>name = ''product_id'', python_type = Some PyInt, nullable = False,
       default_arg = None, onupdate = None\<rparr>,
      \<lparr>name = ''reference_year'', python_type = Some PyInt, nullable = False,
       default_arg = None, onupdate = None\<rparr>,
      \<lparr>name = ''reference_month'', python_type = Some PyInt, nullable = False,
       default_arg = None, onupdate = None\<rparr>,
      \<lparr>name = ''value'', python_type = Some PyInt, nullable = False,
       default_arg = None, onupdate = None\<rparr>]"

section \<open>The session\<close>

text \<open>
  The rows of the model's table, in storage order: \<open>committed\<close> is what the database
  holds, \<open>working\<close> is what the session's open transaction sees. A request starts on a
  fresh session, where the two agree.
\<close>

record session =
  committed :: "item list"
  working :: "item list"

datatype exn = HTTPException nat string | IntegrityError string | TypeError string
  | DataError string | RequestValidationError string

definition HTTP_400_BAD_REQUEST :: nat where "HTTP_400_BAD_REQUEST = 400"
definition HTTP_404_NOT_FOUND :: nat where "HTTP_404_NOT_FOUND = 404"

definition is_active :: "item \<Rightarrow> bool" where
  "is_active self \<longleftrightarrow> self ''is_active'' = Some (BoolV True)"

definition id_is :: "int \<Rightarrow> item \<Rightarrow> bool" where
  "id_is item_id self \<longleftrightarrow> self ''id'' = Some (IntV item_id)"

text \<open>\<open>.first()\<close>: the position of the first row the filter keeps, the handle of the
  instance the session hands out.\<close>

fun first_index :: "('a \<Rightarrow> bool) \<Rightarrow> 'a list \<Rightarrow> nat option" where
  "first_index P [] = None"
| "first_index P (x # xs) = (if P x then Some 0 else map_option Suc (first_index P xs))"

definition hasattr :: "model_class \<Rightarrow> string \<Rightarrow> bool" where
  "hasattr cls key \<longleftrightarrow> key \<in> set (map name (columns cls)) \<or> key \<in> set (other_attributes cls)"

text \<open>
  The flush of a loaded instance whose attributes were set. It emits an UPDATE only when
  a column attribute differs from the loaded row; the UPDATE sets the changed columns,
  and every other column with an \<open>onupdate\<close> value to that value. Attributes that are
  not columns stay on the instance and never reach the row.
\<close>

definition dirty :: "model_class \<Rightarrow> item \<Rightarrow> item \<Rightarrow> bool" where
  "dirty cls loaded self \<longleftrightarrow> list_ex (\<lambda>c. self (name c) \<noteq> loaded (name c)) (columns cls)"

definition update_column :: "item \<Rightarrow> item \<Rightarrow> column \<Rightarrow> item \<Rightarrow> item" where
  "update_column self loaded c row =
     (if self (name c) \<noteq> loaded (name c) then row(name c := self (name c))
      else case onupdate c of Some v \<Rightarrow> row(name c \<mapsto> v) | None \<Rightarrow> row)"

definition flush_update :: "model_class \<Rightarrow> item \<Rightarrow> item \<Rightarrow> item" where
  "flush_update cls loaded self =
     (if \<not> dirty cls loaded self then loaded
      else fold (update_column self loaded) (columns cls) loaded)"

text \<open>\<open>db.refresh(db_item)\<close>: the column attributes are read back from the row.\<close>

definition refresh :: "model_class \<Rightarrow> item \<Rightarrow> item \<Rightarrow> item" where
  "refresh cls row db_item =
     (\<lambda>key. if key \<in> set (map name (columns cls)) then row key else db_item key)"

text \<open>
  What the database checks for the row written at position \<open>j\<close>: NOT NULL on the
  columns that are not nullable, the primary key \<open>id\<close> unique, and the table's other
  constraints.
\<close>

definition violation :: "model_class \<Rightarrow> item list \<Rightarrow> nat \<Rightarrow> string option" where
  "violation cls rows j =
     (if list_ex (\<lambda>c. \<not> nullable c \<and> getattr (rows ! j) (name c) = NoneV) (columns cls)
      then Some ''not-null constraint''
      else if list_ex (\<lambda>k. k \<noteq> j \<and> (rows ! k) ''id'' = (rows ! j) ''id'') [0..<length rows]
      then Some ''unique constraint''
      else table_constraints cls rows)"

text \<open>
  \<open>db.commit()\<close> flushes and commits. \<open>written\<close> is the position of the row the flush
  writes, if it writes one; a violation raises \<open>IntegrityError\<close> with the driver's
  message and leaves the transaction open.
\<close>

definition commit :: "model_class \<Rightarrow> session \<Rightarrow> nat option \<Rightarrow> string + session" where
  "commit cls db written =
     (case written of
        None \<Rightarrow> Inr (db\<lparr>committed := working db\<rparr>)
      | Some j \<Rightarrow>
          (case violation cls (working db) j of
             Some orig \<Rightarrow> Inl orig
           | None \<Rightarrow> Inr (db\<lparr>committed := working db\<rparr>)))"

definition rollback :: "session \<Rightarrow> session" where
  "rollback db = db\<lparr>working := committed db\<rparr>"

section \<open>create_crud_operations\<close>

definition get_item :: "session \<Rightarrow> int \<Rightarrow> item option" where
  "get_item db item_id =
     (case first_index (\<lambda>self. id_is item_id self \<and> is_active self) (working db) of
        None \<Rightarrow> None
      | Some j \<Rightarrow> Some (working db ! j))"

text \<open>
  \<open>get_items\<close>, with its defaults for \<open>skip\<close> and \<open>limit\<close>. The rows come in storage
  order. A negative OFFSET or LIMIT is rejected by the database (PostgreSQL, the
  database of app/config.py), the OFFSET first.
\<close>

definition get_items :: "session \<Rightarrow> int option \<Rightarrow> int option \<Rightarrow> exn + item list" where
  "get_items db skip_arg limit_arg =
     (let skip = (case skip_arg of None \<Rightarrow> 0 | Some s \<Rightarrow> s);
          limit = (case limit_arg of None \<Rightarrow> 100 | Some l \<Rightarrow> l)
      in if skip < 0 then Inl (DataError ''OFFSET must not be negative'')
         else if limit < 0 then Inl (DataError ''LIMIT must not be negative'')
         else Inr (take (nat limit) (drop (nat skip) (filter is_active (working db)))))"

definition set_attributes :: "model_class \<Rightarrow> (string \<times> val) list \<Rightarrow> item \<Rightarrow> item" where
  "set_attributes cls item_data db_item =
     fold (\<lambda>(key, value) self. if hasattr cls key \<and> key \<noteq> ''id'' then self(key \<mapsto> value) else self)
       item_data db_item"

definition update_item ::
  "model_class \<Rightarrow> session \<Rightarrow> int \<Rightarrow> (string \<times> val) list \<Rightarrow> session \<times> (exn + item option)" where
  "update_item cls db item_id item_data =
     (case first_index (\<lambda>self. id_is item_id self \<and> is_active self) (working db) of
        None \<Rightarrow> (db, Inr None)
      | Some j \<Rightarrow>
          (let loaded = working db ! j;
               db_item = set_attributes cls item_data loaded;
               db1 = db\<lparr>working := (working db)[j := flush_update cls loaded db_item]\<rparr>
           in case commit cls db1 (if dirty cls loaded db_item then Some j else None) of
                Inl orig \<Rightarrow>
                  (rollback db1, Inl (HTTPException HTTP_400_BAD_REQUEST (''Integrity error: '' @ orig)))
              | Inr db2 \<Rightarrow> (db2, Inr (Some (refresh cls (working db2 ! j) db_item)))))"

definition delete_item :: "model_class \<Rightarrow> session \<Rightarrow> int \<Rightarrow> session \<times> (exn + bool)" where
  "delete_item cls db item_id =
     (case first_index (\<lambda>self. id_is item_id self \<and> is_active self) (working db) of
        None \<Rightarrow> (db, Inr False)
      | Some j \<Rightarrow>
          (let loaded = working db ! j;
               db_item = soft_delete loaded;
               db1 = db\<lparr>working := (working db)[j := flush_update cls loaded db_item]\<rparr>
           in case commit cls db1 (if dirty cls loaded db_item then Some j else None) of
                Inl orig \<Rightarrow> (db1, Inl (IntegrityError orig))
              | Inr db2 \<Rightarrow> (db2, Inr True)))"

text \<open>
  \<open>model_class(**item_data)\<close>: the declarative constructor sets each keyword as an
  attribute and raises \<open>TypeError\<close> at the first one the class does not have.
\<close>

fun construct :: "model_class \<Rightarrow> (string \<times> val) list \<Rightarrow> item \<Rightarrow> exn + item" where
  "construct cls [] self = Inr self"
| "construct cls ((k, v) # kwargs) self =
     (if \<not> hasattr cls k
      then Inl (TypeError (k @ '' is an invalid keyword argument for '' @ cls_name cls))
      else construct cls kwargs (self(k \<mapsto> v)))"

text \<open>
  The INSERT of a new instance. An attribute that is unset or \<open>None\<close> takes the
  column's scalar default; without one the database supplies the value: \<open>generated\<close>
  gives what it generates for a sequence and for the serial primary key \<open>id\<close>, any
  other column is NULL.
\<close>

definition insert_value :: "(string \<Rightarrow> val) \<Rightarrow> item \<Rightarrow> column \<Rightarrow> val" where
  "insert_value generated self c =
     (if getattr self (name c) \<noteq> NoneV then getattr self (name c)
      else case default_arg c of
             Some (ColumnDefault arg) \<Rightarrow> arg
           | Some (Sequence _) \<Rightarrow> generated (name c)
           | None \<Rightarrow> if name c = ''id'' then generated ''id'' else NoneV)"

definition insert_row :: "model_class \<Rightarrow> (string \<Rightarrow> val) \<Rightarrow> item \<Rightarrow> item" where
  "insert_row cls generated self =
     fold (\<lambda>c row. row(name c \<mapsto> insert_value generated self c)) (columns cls) Map.empty"

definition create_item ::
  "model_class \<Rightarrow> session \<Rightarrow> (string \<Rightarrow> val) \<Rightarrow> (string \<times> val) list \<Rightarrow> session \<times> (exn + item)" where
  "create_item cls db generated item_data =
     (case construct cls item_data Map.empty of
        Inl e \<Rightarrow> (db, Inl e)
      | Inr db_item \<Rightarrow>
          (let j = length (working db);
               db1 = db\<lparr>working := working db @ [insert_row cls generated db_item]\<rparr>
           in case commit cls db1 (Some j) of
                Inl orig \<Rightarrow>
                  (rollback db1, Inl (HTTPException HTTP_400_BAD_REQUEST (''Integrity error: '' @ orig)))
              | Inr db2 \<Rightarrow> (db2, Inr (refresh cls (working db2 ! j) db_item))))"

section \<open>create_pydantic_model\<close>

text \<open>
  A field of the derived schema is a type and a default; \<open>Ellipsis\<close> marks a required
  field. The \<open>fields\<close> dictionary keeps insertion order and one entry per key.
\<close>

datatype field_default = Ellipsis | DefaultValue val

record pydantic_model =
  schema_name :: string
  model_fields :: "(string \<times> pytype \<times> field_default) list"

fun derive_fields ::
  "column list \<Rightarrow> string list \<Rightarrow> (string \<times> pytype \<times> field_default) list
     \<Rightarrow> (string \<times> pytype \<times> field_default) list" where
  "derive_fields [] exclude_fields fields' = fields'"
| "derive_fields (column # rest) exclude_fields fields' =
     (if name column \<in> set exclude_fields then derive_fields rest exclude_fields fields'
      else
        let py_type = (case python_type column of Some t \<Rightarrow> t | None \<Rightarrow> PyStr)
        in if nullable column \<and> name column \<notin> set [''id'']
           then derive_fields rest exclude_fields
                  (AList.update (name column) (Optional py_type, DefaultValue NoneV) fields')
           else if default_arg column \<noteq> None
           then derive_fields rest exclude_fields
                  (AList.update (name column)
                     (py_type, case default_arg column of
                                 Some (ColumnDefault arg) \<Rightarrow> DefaultValue arg
                               | _ \<Rightarrow> DefaultValue NoneV) fields')
           else if name column = ''id'' then derive_fields rest exclude_fields fields'
           else derive_fields rest exclude_fields
                  (AList.update (name column) (py_type, Ellipsis) fields'))"

definition create_pydantic_model :: "model_class \<Rightarrow> string list option \<Rightarrow> pydantic_model" where
  "create_pydantic_model sqlalchemy_model exclude_fields =
     \<lparr>schema_name = cls_name sqlalchemy_model @ ''Model'',
      model_fields = derive_fields (columns sqlalchemy_model)
                 (case exclude_fields of None \<Rightarrow> [] | Some ex \<Rightarrow> ex) []\<rparr>"

subsection \<open>Request bodies\<close>

text \<open>
  The framework validates the JSON body against the schema before it calls the
  endpoint: a key the schema does not have is dropped, a required field that is missing
  and a value of the wrong type are answered with 422. The values are taken to arrive in
  their Python types, so no coercion happens. The instance remembers which fields the
  request set; \<open>model_dump(exclude_unset=True)\<close> returns those.
\<close>

fun has_type :: "val \<Rightarrow> pytype \<Rightarrow> bool" where
  "has_type v (Optional t) = (v = NoneV \<or> has_type v t)"
| "has_type v PyInt = (case v of IntV _ \<Rightarrow> True | _ \<Rightarrow> False)"
| "has_type v PyStr = (case v of StrV _ \<Rightarrow> True | _ \<Rightarrow> False)"
| "has_type v PyBool = (case v of BoolV _ \<Rightarrow> True | _ \<Rightarrow> False)"
| "has_type v PyDateTime = (case v of DateTimeV _ \<Rightarrow> True | _ \<Rightarrow> False)"
| "has_type v (PyEnum _) = (case v of StrV _ \<Rightarrow> True | _ \<Rightarrow> False)"

record pydantic_instance =
  field_values :: "(string \<times> val) list"
  fields_set :: "string list"

fun validate_fields ::
  "(string \<times> pytype \<times> field_default) list \<Rightarrow> (string \<times> val) list \<Rightarrow> exn + pydantic_instance" where
  "validate_fields [] body = Inr \<lparr>field_values = [], fields_set = []\<rparr>"
| "validate_fields ((k, t, d) # rest) body =
     (case map_of body k of
        Some v \<Rightarrow>
          if \<not> has_type v t then Inl (RequestValidationError k)
          else (case validate_fields rest body of
                  Inl e \<Rightarrow> Inl e
                | Inr inst \<Rightarrow> Inr \<lparr>field_values = (k, v) # field_values inst,
                                  fields_set = k # fields_set inst\<rparr>)
      | None \<Rightarrow>
          (case d of
             Ellipsis \<Rightarrow> Inl (RequestValidationError k)
           | DefaultValue dv \<Rightarrow>
               (case validate_fields rest body of
                  Inl e \<Rightarrow> Inl e
                | Inr inst \<Rightarrow> Inr \<lparr>field_values = (k, dv) # field_values inst,
                                  fields_set = fields_set inst\<rparr>)))"

definition model_validate :: "pydantic_model \<Rightarrow> (string \<times> val) list \<Rightarrow> exn + pydantic_instance" where
  "model_validate schema body = validate_fields (model_fields schema) body"

definition model_dump_exclude_unset :: "pydantic_instance \<Rightarrow> (string \<times> val) list" where
  "model_dump_exclude_unset inst =
     filter (\<lambda>(k, v). k \<in> set (fields_set inst)) (field_values inst)"

section \<open>generate_crud_routes\<close>

datatype response = Dict "(string \<times> val) list" | ListOfDict "(string \<times> val) list list"

definition create_endpoint ::
  "model_class \<Rightarrow> pydantic_instance \<Rightarrow> session \<Rightarrow> (string \<Rightarrow> val) \<Rightarrow> session \<times> (exn + response)" where
  "create_endpoint model_cls inst db generated =
     (let item_data = model_dump_exclude_unset inst
      in case create_item model_cls db generated item_data of
           (db', Inl e) \<Rightarrow> (db', Inl e)
         | (db', Inr db_item) \<Rightarrow> (db', Inr (Dict (to_dict model_cls db_item))))"

definition get_endpoint :: "model_class \<Rightarrow> int \<Rightarrow> session \<Rightarrow> exn + response" where
  "get_endpoint model_cls item_id db =
     (case get_item db item_id of
        None \<Rightarrow> Inl (HTTPException HTTP_404_NOT_FOUND (cls_name model_cls @ '' not found''))
      | Some db_item \<Rightarrow> Inr (Dict (to_dict model_cls db_item)))"

definition get_all_endpoint ::
  "model_class \<Rightarrow> int option \<Rightarrow> int option \<Rightarrow> session \<Rightarrow> exn + response" where
  "get_all_endpoint model_cls skip_arg limit_arg db =
     (let skip = (case skip_arg of None \<Rightarrow> 0 | Some s \<Rightarrow> s);
          limit = (case limit_arg of None \<Rightarrow> 100 | Some l \<Rightarrow> l)
      in case get_items db (Some skip) (Some limit) of
           Inl e \<Rightarrow> Inl e
         | Inr db_items \<Rightarrow> Inr (ListOfDict (map (to_dict model_cls) db_items)))"

definition update_endpoint ::
  "model_class \<Rightarrow> int \<Rightarrow> pydantic_instance \<Rightarrow> session \<Rightarrow> session \<times> (exn + response)" where
  "update_endpoint model_cls item_id inst db =
     (let item_data = model_dump_exclude_unset inst
      in case update_item model_cls db item_id item_data of
           (db', Inl e) \<Rightarrow> (db', Inl e)
         | (db', Inr None) \<Rightarrow>
             (db', Inl (HTTPException HTTP_404_NOT_FOUND (cls_name model_cls @ '' not found'')))
         | (db', Inr (Some db_item)) \<Rightarrow> (db', Inr (Dict (to_dict model_cls db_item))))"

definition delete_endpoint :: "model_class \<Rightarrow> int \<Rightarrow> session \<Rightarrow> session \<times> (exn + response)" where
  "delete_endpoint model_cls item_id db =
     (case delete_item model_cls db item_id of
        (db', Inl e) \<Rightarrow> (db', Inl e)
      | (db', Inr success) \<Rightarrow>
          if \<not> success
          then (db', Inl (HTTPException HTTP_404_NOT_FOUND (cls_name model_cls @ '' not found'')))
          else (db', Inr (Dict [(''message'', StrV (cls_name model_cls @ '' deleted successfully''))])))"

subsection \<open>The routes\<close>

datatype http_method = POST | GET | PUT | DELETE

datatype response_model = dict_model | list_dict_model

text \<open>An endpoint closure, with the model class and the schema it was made for.\<close>

datatype endpoint =
    make_create_endpoint model_class pydantic_model
  | make_get_endpoint model_class
  | make_get_all_endpoint model_class
  | make_update_endpoint model_class pydantic_model
  | make_delete_endpoint model_class

record route =
  route_method :: http_method
  path :: string
  response_model :: "response_model option"
  tags :: "string list"
  endpoint :: endpoint

text \<open>\<open>str.lower()\<close> on the ASCII letters.\<close>

definition lower_char :: "char \<Rightarrow> char" where
  "lower_char c =
     (let n = (of_char c :: nat) in if 65 \<le> n \<and> n \<le> 90 then char_of (n + 32) else c)"

definition lower :: "string \<Rightarrow> string" where
  "lower s = map lower_char s"

definition model_routes :: "string \<Rightarrow> model_class \<Rightarrow> route list" where
  "model_routes model_name model_class =
     (let create_model_schema =
            create_pydantic_model model_class
              (Some [''id'', ''created_at'', ''updated_at'', ''is_active'']);
          update_model_schema =
            create_pydantic_model model_class
              (Some [''id'', ''created_at'', ''updated_at'', ''is_active'']);
          route_prefix = ''/'' @ lower model_name
      in [\<lparr>route_method = POST, path = route_prefix @ ''/'', response_model = Some dict_model,
           tags = [model_name], endpoint = make_create_endpoint model_class create_model_schema\<rparr>,
          \<lparr>route_method = GET, path = route_prefix @ ''/{item_id}'', response_model = Some dict_model,
           tags = [model_name], endpoint = make_get_endpoint model_class\<rparr>,
          \<lparr>route_method = GET, path = route_prefix @ ''/'', response_model = Some list_dict_model,
           tags = [model_name], endpoint = make_get_all_endpoint model_class\<rparr>,
          \<lparr>route_method = PUT, path = route_prefix @ ''/{item_id}'', response_model = Some dict_model,
           tags = [model_name], endpoint = make_update_endpoint model_class update_model_schema\<rparr>,
          \<lparr>route_method = DELETE, path = route_prefix @ ''/{item_id}'', response_model = None,
           tags = [model_name], endpoint = make_delete_endpoint model_class\<rparr>])"

text \<open>The loop over \<open>models.items()\<close>; \<open>app\<close> is the application's route table.\<close>

definition generate_crud_routes :: "route list \<Rightarrow> (string \<times> model_class) list \<Rightarrow> route list" where
  "generate_crud_routes app models =
     fold (\<lambda>(model_name, model_class) app. app @ model_routes model_name model_class) models app"

text \<open>
  A request to a route: the framework validates the body against the endpoint's schema
  and calls the endpoint.
\<close>

datatype request = Request (req_item_id: "int option") (req_skip: "int option")
  (req_limit: "int option") (req_body: "(string \<times> val) list")

fun call_endpoint ::
  "endpoint \<Rightarrow> request \<Rightarrow> session \<Rightarrow> (string \<Rightarrow> val) \<Rightarrow> session \<times> (exn + response)" where
  "call_endpoint (make_create_endpoint model_cls schema) req db generated =
     (case model_validate schema (req_body req) of
        Inl e \<Rightarrow> (db, Inl e)
      | Inr inst \<Rightarrow> create_endpoint model_cls inst db generated)"
| "call_endpoint (make_get_endpoint model_cls) req db generated =
     (case req_item_id req of
        None \<Rightarrow> (db, Inl (RequestValidationError ''item_id''))
      | Some item_id \<Rightarrow> (db, get_endpoint model_cls item_id db))"
| "call_endpoint (make_get_all_endpoint model_cls) req db generated =
     (db, get_all_endpoint model_cls (req_skip req) (req_limit req) db)"
| "call_endpoint (make_update_endpoint model_cls schema) req db generated =
     (case req_item_id req of
        None \<Rightarrow> (db, Inl (RequestValidationError ''item_id''))
      | Some item_id \<Rightarrow>
          (case model_validate schema (req_body req) of
             Inl e \<Rightarrow> (db, Inl e)
           | Inr inst \<Rightarrow> update_endpoint model_cls item_id inst db))"
| "call_endpoint (make_delete_endpoint model_cls) req db generated =
     (case req_item_id req of
        None \<Rightarrow> (db, Inl (RequestValidationError ''item_id''))
      | Some item_id \<Rightarrow> delete_endpoint model_cls item_id db)"

section \<open>A model and a table to run the operations on\<close>

text \<open>
  \<open>Offer\<close> of models/offer.py: the columns of \<open>BaseModel\<close> followed by its own, and the
  foreign key of \<open>product_id\<close> into the identifiers \<open>products\<close> of the products table.
\<close>

definition offer_foreign_key :: "int list \<Rightarrow> item list \<Rightarrow> string option" where
  "offer_foreign_key products rows =
     (if list_ex (\<lambda>row. \<not> list_ex (\<lambda>p. row ''product_id'' = Some (IntV p)) products) rows
      then Some ''foreign key constraint'' else None)"

definition Offer :: "nat \<Rightarrow> nat \<Rightarrow> nat \<Rightarrow> int list \<Rightarrow> model_class" where
  "Offer t_created t_updated t_onupdate products =
     \<lparr>cls_name = ''Offer'',
      columns = base_columns t_created t_updated t_onupdate @ offer_columns,
      other_attributes = [''product'', ''to_dict'', ''soft_delete'', ''metadata''],
      table_constraints = offer_foreign_key products\<rparr>"

definition offer_row :: "int \<Rightarrow> bool \<Rightarrow> nat \<Rightarrow> int \<Rightarrow> item" where
  "offer_row i active t p =
     [''id'' \<mapsto> IntV i, ''created_at'' \<mapsto> DateTimeV t, ''updated_at'' \<mapsto> DateTimeV t,
      ''is_active'' \<mapsto> BoolV active, ''product_id'' \<mapsto> IntV p,
      ''reference_year'' \<mapsto> IntV 2024, ''reference_month'' \<mapsto> IntV 5, ''value'' \<mapsto> IntV 100]"

definition fresh_session :: "item list \<Rightarrow> session" where
  "fresh_session rows = \<lparr>committed = rows, working = rows\<rparr>"

text \<open>
  The process started at the instants 100, 101 and 102; product 1 exists; the table holds
  an active offer 1 and an inactive offer 2, both written at instant 50.
\<close>

definition offer_cls :: model_class where
  "offer_cls = Offer 100 101 102 [1]"

definition offer_db :: session where
  "offer_db = fresh_session [offer_row 1 True 50 1, offer_row 2 False 50 1]"

section \<open>Facts about the session\<close>

lemma first_index_Some:
  "first_index P xs = Some j \<Longrightarrow> j < length xs \<and> P (xs ! j) \<and> (\<forall>k<j. \<not> P (xs ! k))"
proof (induction xs arbitrary: j)
  case Nil
  then show ?case by simp
next
  case (Cons x xs)
  show ?case
  proof (cases "P x")
    case True
    with Cons.prems show ?thesis by simp
  next
    case False
    with Cons.prems obtain i where i: "first_index P xs = Some i" "j = Suc i"
      by auto
    from Cons.IH [OF i(1)] False i(2) show ?thesis
      by (auto simp: nth_Cons split: nat.splits)
  qed
qed

lemma first_index_None: "first_index P xs = None \<longleftrightarrow> (\<forall>x\<in>set xs. \<not> P x)"
  by (induction xs) auto

lemma fold_update_other:
  "\<forall>c\<in>set cs. name c \<noteq> k \<Longrightarrow> fold (update_column self loaded) cs row k = row k"
  by (induction cs arbitrary: row) (auto simp: update_column_def split: option.splits)

lemma fold_update_changed:
  "self k \<noteq> loaded k \<Longrightarrow>
   fold (update_column self loaded) cs row k = (if k \<in> set (map name cs) then self k else row k)"
  by (induction cs arbitrary: row) (auto simp: update_column_def split: option.splits)

lemma fold_update_unchanged:
  "self k = loaded k \<Longrightarrow> \<forall>c\<in>set cs. name c = k \<longrightarrow> onupdate c = None \<Longrightarrow>
   fold (update_column self loaded) cs row k = row k"
  by (induction cs arbitrary: row) (auto simp: update_column_def split: option.splits)

lemma fold_update_onupdate:
  "c \<in> set cs \<Longrightarrow> distinct (map name cs) \<Longrightarrow> self (name c) = loaded (name c) \<Longrightarrow>
   onupdate c = Some v \<Longrightarrow> fold (update_column self loaded) cs row (name c) = Some v"
proof (induction cs arbitrary: row)
  case Nil
  then show ?case by simp
next
  case (Cons a cs)
  show ?case
  proof (cases "c = a")
    case True
    have "name a \<notin> set (map name cs)" using Cons.prems(2) by simp
    then have "\<forall>c'\<in>set cs. name c' \<noteq> name a" by (metis image_eqI set_map)
    from fold_update_other [OF this]
    have "fold (update_column self loaded) (a # cs) row (name a)
            = update_column self loaded a row (name a)"
      by simp
    also have "\<dots> = Some v"
      using True Cons.prems(3,4) by (simp add: update_column_def)
    finally show ?thesis using True by simp
  next
    case False
    with Cons.prems have "c \<in> set cs" "distinct (map name cs)" by auto
    from Cons.IH [OF this Cons.prems(3,4)] show ?thesis by simp
  qed
qed

lemma flush_update_non_column:
  "k \<notin> set (map name (columns cls)) \<Longrightarrow> flush_update cls loaded self k = loaded k"
  unfolding flush_update_def using fold_update_other [of "columns cls" k self loaded loaded]
  by auto

lemma flush_update_changed:
  "k \<in> set (map name (columns cls)) \<Longrightarrow> self k \<noteq> loaded k \<Longrightarrow>
   flush_update cls loaded self k = self k"
  unfolding flush_update_def dirty_def
  using fold_update_changed [of self k loaded "columns cls" loaded]
  by (auto simp: list_ex_iff)

lemma flush_update_unchanged:
  "self k = loaded k \<Longrightarrow> \<forall>c\<in>set (columns cls). name c = k \<longrightarrow> onupdate c = None \<Longrightarrow>
   flush_update cls loaded self k = loaded k"
  unfolding flush_update_def using fold_update_unchanged [of self k loaded "columns cls" loaded]
  by auto

lemma flush_update_onupdate:
  "dirty cls loaded self \<Longrightarrow> c \<in> set (columns cls) \<Longrightarrow> distinct (map name (columns cls)) \<Longrightarrow>
   self (name c) = loaded (name c) \<Longrightarrow> onupdate c = Some v \<Longrightarrow>
   flush_update cls loaded self (name c) = Some v"
  unfolding flush_update_def using fold_update_onupdate [of c "columns cls" self loaded v loaded]
  by auto

lemma commit_Inr: "commit cls db w = Inr db2 \<Longrightarrow> db2 = db\<lparr>committed := working db\<rparr>"
  by (auto simp: commit_def split: option.splits)

lemma commit_None: "commit cls db None = Inr (db\<lparr>committed := working db\<rparr>)"
  by (simp add: commit_def)

lemma commit_cases:
  obtains (fail) orig where "commit cls db w = Inl orig"
  | (ok) "commit cls db w = Inr (db\<lparr>committed := working db\<rparr>)"
  by (cases "commit cls db w") (auto dest: commit_Inr)

lemma delete_item_found:
  assumes found: "first_index (\<lambda>self. id_is item_id self \<and> is_active self) (working db) = Some j"
    and ok: "snd (delete_item cls db item_id) = Inr True"
  shows "working (fst (delete_item cls db item_id)) =
           (working db)[j := flush_update cls (working db ! j) (soft_delete (working db ! j))]"
    and "committed (fst (delete_item cls db item_id)) =
           (working db)[j := flush_update cls (working db ! j) (soft_delete (working db ! j))]"
proof -
  let ?db1 = "db\<lparr>working :=
    (working db)[j := flush_update cls (working db ! j) (soft_delete (working db ! j))]\<rparr>"
  let ?w = "if dirty cls (working db ! j) (soft_delete (working db ! j)) then Some j else None"
  have "working (fst (delete_item cls db item_id)) = working ?db1
      \<and> committed (fst (delete_item cls db item_id)) = working ?db1"
  proof (cases cls ?db1 ?w rule: commit_cases)
    case (fail orig)
    with found ok show ?thesis by (simp add: delete_item_def Let_def)
  next
    case ok
    with found show ?thesis by (simp add: delete_item_def Let_def)
  qed
  then show "working (fst (delete_item cls db item_id)) =
           (working db)[j := flush_update cls (working db ! j) (soft_delete (working db ! j))]"
    and "committed (fst (delete_item cls db item_id)) =
           (working db)[j := flush_update cls (working db ! j) (soft_delete (working db ! j))]"
    by simp_all
qed

lemma update_item_cases [consumes 0, case_names none fail ok]:
  fixes cls db item_id item_data
  defines "found \<equiv> first_index (\<lambda>self. id_is item_id self \<and> is_active self) (working db)"
  obtains (none) "found = None" "update_item cls db item_id item_data = (db, Inr None)"
  | (fail) j orig where "found = Some j"
      "commit cls (db\<lparr>working := (working db)[j := flush_update cls (working db ! j)
           (set_attributes cls item_data (working db ! j))]\<rparr>)
         (if dirty cls (working db ! j) (set_attributes cls item_data (working db ! j))
          then Some j else None) = Inl orig"
      "update_item cls db item_id item_data =
         (db\<lparr>working := committed db\<rparr>,
          Inl (HTTPException HTTP_400_BAD_REQUEST (''Integrity error: '' @ orig)))"
  | (ok) j where "found = Some j"
      "update_item cls db item_id item_data =
         (db\<lparr>working := (working db)[j := flush_update cls (working db ! j)
                (set_attributes cls item_data (working db ! j))],
             committed := (working db)[j := flush_update cls (working db ! j)
                (set_attributes cls item_data (working db ! j))]\<rparr>,
          Inr (Some (refresh cls (flush_update cls (working db ! j)
                (set_attributes cls item_data (working db ! j)))
                (set_attributes cls item_data (working db ! j)))))"
proof (cases found)
  case None
  then show ?thesis using none by (simp add: update_item_def found_def)
next
  case (Some j)
  let ?self = "set_attributes cls item_data (working db ! j)"
  let ?db1 = "db\<lparr>working := (working db)[j := flush_update cls (working db ! j) ?self]\<rparr>"
  let ?w = "if dirty cls (working db ! j) ?self then Some j else None"
  from Some have j: "j < length (working db)"
    using first_index_Some [of _ "working db" j] by (simp add: found_def)
  show ?thesis
  proof (cases cls ?db1 ?w rule: commit_cases)
    case (fail orig)
    show ?thesis
      by (rule that(2) [OF Some fail])
         (use Some fail in \<open>simp add: update_item_def found_def Let_def rollback_def\<close>)
  next
    case ok
    show ?thesis
      by (rule that(3) [OF Some])
         (use Some ok j in \<open>simp add: update_item_def found_def Let_def\<close>)
  qed
qed


lemma delete_item_cases [consumes 0, case_names none fail ok]:
  fixes cls db item_id
  defines "found \<equiv> first_index (\<lambda>self. id_is item_id self \<and> is_active self) (working db)"
  obtains (none) "found = None" "delete_item cls db item_id = (db, Inr False)"
  | (fail) j orig where "found = Some j"
      "delete_item cls db item_id =
         (db\<lparr>working := (working db)[j := flush_update cls (working db ! j)
                (soft_delete (working db ! j))]\<rparr>,
          Inl (IntegrityError orig))"
  | (ok) j where "found = Some j"
      "delete_item cls db item_id =
         (db\<lparr>working := (working db)[j := flush_update cls (working db ! j)
                (soft_delete (working db ! j))],
             committed := (working db)[j := flush_update cls (working db ! j)
                (soft_delete (working db ! j))]\<rparr>,
          Inr True)"
proof (cases found)
  case None
  then show ?thesis using none by (simp add: delete_item_def found_def)
next
  case (Some j)
  let ?self = "soft_delete (working db ! j)"
  let ?db1 = "db\<lparr>working := (working db)[j := flush_update cls (working db ! j) ?self]\<rparr>"
  let ?w = "if dirty cls (working db ! j) ?self then Some j else None"
  show ?thesis
  proof (cases cls ?db1 ?w rule: commit_cases)
    case (fail orig)
    show ?thesis
      by (rule that(2) [OF Some])
         (use Some fail in \<open>simp add: delete_item_def found_def Let_def\<close>)
  next
    case ok
    show ?thesis
      by (rule that(3) [OF Some])
         (use Some ok in \<open>simp add: delete_item_def found_def Let_def\<close>)
  qed
qed

lemma get_item_Some:
  "get_item db item_id = Some self \<Longrightarrow> is_active self \<and> id_is item_id self \<and> self \<in> set (working db)"
  by (auto simp: get_item_def split: option.splits dest!: first_index_Some)

lemma get_item_None:
  "get_item db item_id = None \<longleftrightarrow>
     first_index (\<lambda>self. id_is item_id self \<and> is_active self) (working db) = None"
  by (simp add: get_item_def split: option.splits)

lemma get_items_active:
  "get_items db skip_arg limit_arg = Inr xs \<Longrightarrow> self \<in> set xs \<Longrightarrow> is_active self"
  by (auto simp: get_items_def Let_def split: if_splits dest!: in_set_takeD in_set_dropD)

lemma soft_deleted_row_inactive:
  assumes act: "''is_active'' \<in> set (map name (columns cls))" and a: "is_active loaded"
  shows "\<not> is_active (flush_update cls loaded (soft_delete loaded))"
proof -
  from a have ne: "soft_delete loaded ''is_active'' \<noteq> loaded ''is_active''"
    by (simp add: soft_delete_def is_active_def)
  from flush_update_changed [of "''is_active''" cls "soft_delete loaded" loaded] act ne
  show ?thesis by (simp add: soft_delete_def is_active_def)
qed

lemma no_active_after_delete:
  assumes pk: "distinct (map (\<lambda>self. self ''id'') rows)"
    and found: "first_index (\<lambda>self. id_is item_id self \<and> is_active self) rows = Some j"
    and row: "\<not> is_active row"
  shows "first_index (\<lambda>self. id_is item_id self \<and> is_active self) (rows[j := row]) = None"
proof -
  from first_index_Some [OF found] have j: "j < length rows" and idj: "id_is item_id (rows ! j)"
    by auto
  have "\<not> (id_is item_id x \<and> is_active x)" if "x \<in> set (rows[j := row])" for x
  proof -
    from that obtain k where k: "k < length rows" "x = rows[j := row] ! k"
      by (auto simp: in_set_conv_nth)
    show ?thesis
    proof (cases "k = j")
      case True
      with k j row show ?thesis by simp
    next
      case False
      with k have x: "x = rows ! k" by simp
      have "(rows ! k) ''id'' \<noteq> (rows ! j) ''id''"
        using pk False k(1) j by (auto simp: distinct_conv_nth)
      with idj x show ?thesis by (auto simp: id_is_def)
    qed
  qed
  then show ?thesis by (simp add: first_index_None)
qed

section \<open>Visibility of active rows\<close>

text \<open>
  Claim C1. On a fresh session the generated operations only see active rows: what
  \<open>get_item\<close> returns is active and has the requested id; everything \<open>get_items\<close>
  returns is active; \<open>update_item\<close> and \<open>delete_item\<close> keep the number of rows and
  leave every inactive row as it is, in the transaction and in the database; and when no
  active row has the id, the three answer as for a missing row and change nothing.
\<close>

theorem only_active_rows_visible:
  assumes fresh: "working db = committed db"
  shows "(\<forall>self. get_item db item_id = Some self \<longrightarrow> is_active self \<and> id_is item_id self) \<and>
     (\<forall>xs. get_items db skip_arg limit_arg = Inr xs \<longrightarrow> (\<forall>self\<in>set xs. is_active self)) \<and>
     (let db' = fst (update_item cls db item_id item_data) in
        length (working db') = length (working db) \<and>
        length (committed db') = length (committed db) \<and>
        (\<forall>k<length (working db). \<not> is_active (working db ! k) \<longrightarrow>
           working db' ! k = working db ! k \<and> committed db' ! k = committed db ! k)) \<and>
     (let db' = fst (delete_item cls db item_id) in
        length (working db') = length (working db) \<and>
        length (committed db') = length (committed db) \<and>
        (\<forall>k<length (working db). \<not> is_active (working db ! k) \<longrightarrow>
           working db' ! k = working db ! k \<and> committed db' ! k = committed db ! k)) \<and>
     ((\<forall>self\<in>set (working db). id_is item_id self \<longrightarrow> \<not> is_active self) \<longrightarrow>
        get_item db item_id = None \<and>
        update_item cls db item_id item_data = (db, Inr None) \<and>
        delete_item cls db item_id = (db, Inr False))"
proof -
  let ?P = "\<lambda>self. id_is item_id self \<and> is_active self"
  have get: "\<forall>self. get_item db item_id = Some self \<longrightarrow> is_active self \<and> id_is item_id self"
    using get_item_Some by blast
  have all: "\<forall>xs. get_items db skip_arg limit_arg = Inr xs \<longrightarrow> (\<forall>self\<in>set xs. is_active self)"
    using get_items_active by blast
  have upd: "let db' = fst (update_item cls db item_id item_data) in
        length (working db') = length (working db) \<and>
        length (committed db') = length (committed db) \<and>
        (\<forall>k<length (working db). \<not> is_active (working db ! k) \<longrightarrow>
           working db' ! k = working db ! k \<and> committed db' ! k = committed db ! k)"
  proof (cases rule: update_item_cases [where cls = cls and db = db and item_id = item_id
      and item_data = item_data])
    case none
    then show ?thesis by simp
  next
    case (fail j orig)
    then show ?thesis using fresh by simp
  next
    case (ok j)
    from first_index_Some [OF ok(1)] have "is_active (working db ! j)" by simp
    then have "\<forall>k. \<not> is_active (working db ! k) \<longrightarrow> k \<noteq> j" by auto
    then show ?thesis using ok(2) fresh by (auto simp: Let_def)
  qed
  have del: "let db' = fst (delete_item cls db item_id) in
        length (working db') = length (working db) \<and>
        length (committed db') = length (committed db) \<and>
        (\<forall>k<length (working db). \<not> is_active (working db ! k) \<longrightarrow>
           working db' ! k = working db ! k \<and> committed db' ! k = committed db ! k)"
  proof (cases rule: delete_item_cases [where cls = cls and db = db and item_id = item_id])
    case none
    then show ?thesis by simp
  next
    case (fail j orig)
    from first_index_Some [OF fail(1)] have "is_active (working db ! j)" by simp
    then have "\<forall>k. \<not> is_active (working db ! k) \<longrightarrow> k \<noteq> j" by auto
    then show ?thesis using fail(2) fresh by (auto simp: Let_def)
  next
    case (ok j)
    from first_index_Some [OF ok(1)] have "is_active (working db ! j)" by simp
    then have "\<forall>k. \<not> is_active (working db ! k) \<longrightarrow> k \<noteq> j" by auto
    then show ?thesis using ok(2) fresh by (auto simp: Let_def)
  qed
  have none: "(\<forall>self\<in>set (working db). id_is item_id self \<longrightarrow> \<not> is_active self) \<longrightarrow>
        get_item db item_id = None \<and>
        update_item cls db item_id item_data = (db, Inr None) \<and>
        delete_item cls db item_id = (db, Inr False)"
  proof
    assume "\<forall>self\<in>set (working db). id_is item_id self \<longrightarrow> \<not> is_active self"
    then have "first_index ?P (working db) = None"
      by (simp add: first_index_None)
    then show "get_item db item_id = None \<and>
        update_item cls db item_id item_data = (db, Inr None) \<and>
        delete_item cls db item_id = (db, Inr False)"
      by (simp add: get_item_def update_item_def delete_item_def)
  qed
  from get all upd del none show ?thesis by blast
qed

theorem only_active_rows_visible_witness:
  "\<not> is_active (working offer_db ! 1) \<and>
   get_item offer_db 2 = None \<and>
   update_item offer_cls offer_db 2 [(''value'', IntV 7)] = (offer_db, Inr None) \<and>
   delete_item offer_cls offer_db 2 = (offer_db, Inr False) \<and>
   working (fst (update_item offer_cls offer_db 1 [(''value'', IntV 7)])) ! 1 = working offer_db ! 1 \<and>
   committed (fst (delete_item offer_cls offer_db 1)) ! 1 = committed offer_db ! 1"
proof -
  have fresh: "working offer_db = committed offer_db"
    by (simp add: offer_db_def fresh_session_def)
  have inactive: "\<not> is_active (working offer_db ! 1)"
    by code_simp
  have len: "1 < length (working offer_db)"
    by code_simp
  have none: "\<forall>self\<in>set (working offer_db). id_is 2 self \<longrightarrow> \<not> is_active self"
    by code_simp
  from only_active_rows_visible [OF fresh, where item_id = 2 and cls = offer_cls
      and item_data = "[(''value'', IntV 7)]"] none
  have a: "get_item offer_db 2 = None \<and>
      update_item offer_cls offer_db 2 [(''value'', IntV 7)] = (offer_db, Inr None) \<and>
      delete_item offer_cls offer_db 2 = (offer_db, Inr False)"
    by blast
  from only_active_rows_visible [OF fresh, where item_id = 1 and cls = offer_cls
      and item_data = "[(''value'', IntV 7)]"] inactive len
  have b: "working (fst (update_item offer_cls offer_db 1 [(''value'', IntV 7)])) ! 1
        = working offer_db ! 1 \<and>
      committed (fst (delete_item offer_cls offer_db 1)) ! 1 = committed offer_db ! 1"
    unfolding Let_def by blast
  from inactive a b show ?thesis by blast
qed

section \<open>Soft delete\<close>

text \<open>
  Claim C2, as the code has it. A successful delete of the active item \<open>item_id\<close>, found
  at position \<open>j\<close>, removes no row. In row \<open>j\<close> it sets \<open>is_active\<close> to false and sets
  every column that declares an \<open>onupdate\<close> value (\<open>updated_at\<close> of \<open>BaseModel\<close>) to that
  value; every other field of the row, and every other row, is left as it was.
\<close>

theorem delete_item_soft:
  assumes fresh: "working db = committed db"
    and act: "''is_active'' \<in> set (map name (columns cls))"
    and dist: "distinct (map name (columns cls))"
    and found: "first_index (\<lambda>self. id_is item_id self \<and> is_active self) (working db) = Some j"
    and ok: "snd (delete_item cls db item_id) = Inr True"
  shows "let db' = fst (delete_item cls db item_id) in
      length (committed db') = length (committed db) \<and>
      (committed db' ! j) ''is_active'' = Some (BoolV False) \<and>
      (\<forall>c\<in>set (columns cls). name c \<noteq> ''is_active'' \<longrightarrow>
         (\<forall>v. onupdate c = Some v \<longrightarrow> (committed db' ! j) (name c) = Some v)) \<and>
      (\<forall>k. k \<noteq> ''is_active'' \<and> (\<forall>c\<in>set (columns cls). name c = k \<longrightarrow> onupdate c = None)
         \<longrightarrow> (committed db' ! j) k = (committed db ! j) k) \<and>
      (\<forall>i<length (committed db). i \<noteq> j \<longrightarrow> committed db' ! i = committed db ! i) \<and>
      working db' = committed db'"
proof -
  let ?loaded = "working db ! j"
  let ?self = "soft_delete ?loaded"
  let ?row = "flush_update cls ?loaded ?self"
  from first_index_Some [OF found] have j: "j < length (working db)" and a: "is_active ?loaded"
    by auto
  from a have ne: "?self ''is_active'' \<noteq> ?loaded ''is_active''"
    by (simp add: soft_delete_def is_active_def)
  from act ne have d: "dirty cls ?loaded ?self"
    by (auto simp: dirty_def list_ex_iff)
  note eq = delete_item_found [OF found ok]
  have 1: "?row ''is_active'' = Some (BoolV False)"
    using flush_update_changed [of "''is_active''" cls ?self ?loaded] act ne
    by (simp add: soft_delete_def)
  have 2: "?row (name c) = Some v"
    if "c \<in> set (columns cls)" "name c \<noteq> ''is_active''" "onupdate c = Some v" for c v
    using flush_update_onupdate [OF d that(1) dist _ that(3)] that(2)
    by (simp add: soft_delete_def)
  have 3: "?row k = ?loaded k"
    if "k \<noteq> ''is_active''" "\<forall>c\<in>set (columns cls). name c = k \<longrightarrow> onupdate c = None" for k
    using flush_update_unchanged [of ?self k ?loaded cls] that by (simp add: soft_delete_def)
  show ?thesis
    unfolding Let_def eq using j 1 2 3 fresh by simp
qed

theorem delete_item_soft_witness:
  "let db' = fst (delete_item offer_cls offer_db 1) in
      length (committed db') = length (committed offer_db) \<and>
      (committed db' ! 0) ''is_active'' = Some (BoolV False) \<and>
      (\<forall>c\<in>set (columns offer_cls). name c \<noteq> ''is_active'' \<longrightarrow>
         (\<forall>v. onupdate c = Some v \<longrightarrow> (committed db' ! 0) (name c) = Some v)) \<and>
      (\<forall>k. k \<noteq> ''is_active'' \<and> (\<forall>c\<in>set (columns offer_cls). name c = k \<longrightarrow> onupdate c = None)
         \<longrightarrow> (committed db' ! 0) k = (committed offer_db ! 0) k) \<and>
      (\<forall>i<length (committed offer_db). i \<noteq> 0 \<longrightarrow> committed db' ! i = committed offer_db ! i) \<and>
      working db' = committed db'"
proof -
  have fresh: "working offer_db = committed offer_db"
    by (simp add: offer_db_def fresh_session_def)
  have act: "''is_active'' \<in> set (map name (columns offer_cls))"
    by code_simp
  have dist: "distinct (map name (columns offer_cls))"
    by code_simp
  have found: "first_index (\<lambda>self. id_is 1 self \<and> is_active self) (working offer_db) = Some 0"
    by code_simp
  have ok: "snd (delete_item offer_cls offer_db 1) = Inr True"
    by code_simp
  show ?thesis
    by (rule delete_item_soft [OF fresh act dist found ok])
qed

text \<open>
  Claim C2 as stated says that the delete leaves every field of the row other than
  \<open>is_active\<close> unchanged. Deleting offer 1, written at instant 50, also moves its
  \<open>updated_at\<close> to the \<open>onupdate\<close> instant 102.
\<close>

theorem delete_item_touches_updated_at:
  "snd (delete_item offer_cls offer_db 1) = Inr True \<and>
   (committed offer_db ! 0) ''updated_at'' = Some (DateTimeV 50) \<and>
   (committed (fst (delete_item offer_cls offer_db 1)) ! 0) ''updated_at'' = Some (DateTimeV 102)"
  by code_simp

section \<open>Deleting twice\<close>

text \<open>
  Claim C9. The table's primary key keeps the ids distinct. Deleting an id that has no
  active row returns false, which the endpoint answers with 404, and changes nothing.
  So a delete that returned is followed by a delete that returns false and leaves the
  state as the first one left it; and whatever the first delete did, a second request,
  on a session over the committed rows, leaves the database as the first one left it.
\<close>

theorem delete_item_idempotent:
  assumes fresh: "working db = committed db"
    and pk: "distinct (map (\<lambda>self. self ''id'') (working db))"
    and act: "''is_active'' \<in> set (map name (columns cls))"
  shows "(get_item db item_id = None \<longrightarrow>
            delete_item cls db item_id = (db, Inr False) \<and>
            delete_endpoint cls item_id db =
              (db, Inl (HTTPException HTTP_404_NOT_FOUND (cls_name cls @ '' not found'')))) \<and>
         (\<forall>r. snd (delete_item cls db item_id) = Inr r \<longrightarrow>
            delete_item cls (fst (delete_item cls db item_id)) item_id
              = (fst (delete_item cls db item_id), Inr False)) \<and>
         committed (fst (delete_item cls (rollback (fst (delete_item cls db item_id))) item_id))
           = committed (fst (delete_item cls db item_id))"
proof (cases rule: delete_item_cases [where cls = cls and db = db and item_id = item_id])
  case none
  then show ?thesis
    using fresh by (simp add: get_item_None delete_endpoint_def delete_item_def rollback_def)
next
  case (fail j orig)
  have "db\<lparr>working := committed db\<rparr> = db"
    using fresh by (metis session.update_convs(2) session.surjective session.select_convs(2))
  with fail show ?thesis
    by (simp add: get_item_None rollback_def)
next
  case (ok j)
  let ?row = "flush_update cls (working db ! j) (soft_delete (working db ! j))"
  let ?rows = "(working db)[j := ?row]"
  from first_index_Some [OF ok(1)] have "is_active (working db ! j)" by simp
  from soft_deleted_row_inactive [OF act this] have "\<not> is_active ?row" .
  from no_active_after_delete [OF pk ok(1) this]
  have none: "first_index (\<lambda>self. id_is item_id self \<and> is_active self) ?rows = None" .
  with ok show ?thesis
    by (simp add: get_item_None rollback_def delete_item_def)
qed


theorem delete_item_idempotent_witness:
  "delete_item offer_cls offer_db 2 = (offer_db, Inr False) \<and>
   delete_endpoint offer_cls 2 offer_db
     = (offer_db, Inl (HTTPException HTTP_404_NOT_FOUND (cls_name offer_cls @ '' not found''))) \<and>
   snd (delete_item offer_cls offer_db 1) = Inr True \<and>
   delete_item offer_cls (fst (delete_item offer_cls offer_db 1)) 1
     = (fst (delete_item offer_cls offer_db 1), Inr False) \<and>
   committed (fst (delete_item offer_cls (rollback (fst (delete_item offer_cls offer_db 1))) 1))
     = committed (fst (delete_item offer_cls offer_db 1))"
proof -
  have fresh: "working offer_db = committed offer_db"
    by (simp add: offer_db_def fresh_session_def)
  have pk: "distinct (map (\<lambda>self. self ''id'') (working offer_db))"
    by code_simp
  have act: "''is_active'' \<in> set (map name (columns offer_cls))"
    by code_simp
  have "first_index (\<lambda>self. id_is 2 self \<and> is_active self) (working offer_db) = None"
    by code_simp
  then have none: "get_item offer_db 2 = None"
    by (simp add: get_item_None)
  have ok: "snd (delete_item offer_cls offer_db 1) = Inr True"
    by code_simp
  from delete_item_idempotent [OF fresh pk act, of 2] none
  have a: "delete_item offer_cls offer_db 2 = (offer_db, Inr False) \<and>
      delete_endpoint offer_cls 2 offer_db
        = (offer_db, Inl (HTTPException HTTP_404_NOT_FOUND (cls_name offer_cls @ '' not found'')))"
    by blast
  from delete_item_idempotent [OF fresh pk act, of 1] ok
  have b: "delete_item offer_cls (fst (delete_item offer_cls offer_db 1)) 1
        = (fst (delete_item offer_cls offer_db 1), Inr False) \<and>
      committed (fst (delete_item offer_cls (rollback (fst (delete_item offer_cls offer_db 1))) 1))
        = committed (fst (delete_item offer_cls offer_db 1))"
    by blast
  from a ok b show ?thesis by blast
qed

end
